theory Spec2Isabelle
  imports Main "HOL-Library.Sublist"
begin

section \<open>Go values, pointers and calls\<close>

text \<open>
  The two packages \<^verbatim>\<open>option\<close> and \<^verbatim>\<open>result\<close> hand out pointers to structs
  (\<^verbatim>\<open>*Option[T]\<close>, \<^verbatim>\<open>*Result[T]\<close>), compare pointers with \<^verbatim>\<open>nil\<close>, write through
  a pointer (\<^verbatim>\<open>Take\<close>) and call closures. The model keeps all of this:

  \<^item> a pointer to a container struct is a \<open>ref\<close>: \<open>NilPtr\<close>, or \<open>Ptr a\<close> for the struct
    at address \<open>a\<close> of the store;
  \<^item> the store is the list of the structs allocated so far; \<^verbatim>\<open>&S{...}\<close> appends a
    struct and returns its address, so addresses are never reused;
  \<^item> a payload pointer \<^verbatim>\<open>*T\<close> is never dereferenced by either package, only
    compared with \<^verbatim>\<open>nil\<close> and passed on: it is a \<open>'p option\<close>, \<open>None\<close> for \<^verbatim>\<open>nil\<close>
    and \<open>Some p\<close> for a pointer \<open>p\<close>. The type parameters \<^verbatim>\<open>T\<close> and \<^verbatim>\<open>U\<close> of the
    source are erased: payload pointers of every instantiation are drawn from \<open>'p\<close>;
  \<^item> a value of the interface type \<^verbatim>\<open>error\<close> is an \<open>'e option\<close>, \<open>None\<close> for \<^verbatim>\<open>nil\<close>;
  \<^item> a Go call is a function from the store to its outcome, the panic that ended it
    or its result, together with the store it left: what a call wrote before it
    panicked stays written, as a caller that recovers would see it. Closures passed
    as arguments are calls too: they may allocate, write, or panic.
\<close>

datatype panic =
    Panic string    \<comment> \<open>\<^verbatim>\<open>panic(msg)\<close>\<close>
  | RuntimeError    \<comment> \<open>invalid memory address or nil pointer dereference\<close>

datatype ref = NilPtr | Ptr nat

type_synonym ('x, 'c) go = "'c list \<Rightarrow> (panic + 'x) \<times> 'c list"

definition ret :: "'x \<Rightarrow> ('x, 'c) go" where
  "ret x = (\<lambda>h. (Inr x, h))"

definition raise :: "panic \<Rightarrow> ('x, 'c) go" where
  "raise p = (\<lambda>h. (Inl p, h))"

definition bnd :: "('x, 'c) go \<Rightarrow> ('x \<Rightarrow> ('y, 'c) go) \<Rightarrow> ('y, 'c) go" where
  "bnd m k = (\<lambda>h. case m h of (Inl p, h') \<Rightarrow> (Inl p, h') | (Inr x, h') \<Rightarrow> k x h')"

text \<open>
  Reading a field through a pointer. Go panics on \<^verbatim>\<open>nil\<close>; an address outside the
  store cannot be formed by a Go program, and the model panics there as well.
\<close>

definition deref :: "ref \<Rightarrow> ('c, 'c) go" where
  "deref r = (\<lambda>h. case r of
       NilPtr \<Rightarrow> (Inl RuntimeError, h)
     | Ptr a \<Rightarrow> if a < length h then (Inr (h ! a), h) else (Inl RuntimeError, h))"

text \<open>\<^verbatim>\<open>&S{...}\<close>: a new struct at the next free address.\<close>

definition new :: "'c \<Rightarrow> (ref, 'c) go" where
  "new c = (\<lambda>h. (Inr (Ptr (length h)), h @ [c]))"

text \<open>Writing the struct a pointer points to.\<close>

definition assign :: "ref \<Rightarrow> 'c \<Rightarrow> (unit, 'c) go" where
  "assign r c = (\<lambda>h. case r of
       NilPtr \<Rightarrow> (Inl RuntimeError, h)
     | Ptr a \<Rightarrow> if a < length h then (Inr (), h[a := c]) else (Inl RuntimeError, h))"

text \<open>
  A call that only allocates: from every store, whether the call returns or panics,
  the store it leaves begins with the store it started from, so every struct that
  existed before the call is unchanged after it.
\<close>

definition allocates_only :: "('x, 'c) go \<Rightarrow> bool" where
  "allocates_only m = (\<forall>h. prefix h (snd (m h)))"


section \<open>Package option\<close>

text \<open>\<^verbatim>\<open>type Option[T any] struct { value *T }\<close>\<close>

record 'p Option =
  "value" :: "'p option"

definition New_Option :: "'p option \<Rightarrow> (ref, 'p Option) go" where
  "New_Option v =
     (if v = None then new \<lparr>Option.value = None\<rparr>
      else new \<lparr>Option.value = v\<rparr>)"

definition Some_Option :: "'p option \<Rightarrow> (ref, 'p Option) go" where
  "Some_Option v = new \<lparr>Option.value = v\<rparr>"

definition None_Option :: "(ref, 'p Option) go" where
  "None_Option = new \<lparr>Option.value = None\<rparr>"

definition And_Option :: "ref \<Rightarrow> ref \<Rightarrow> (ref, 'p Option) go" where
  "And_Option in' out =
     bnd (deref in') (\<lambda>c.
       if Option.value c = None then ret NilPtr
       else ret out)"

definition AndThen_Option ::
  "ref \<Rightarrow> ('p option \<Rightarrow> (ref, 'p Option) go) \<Rightarrow> (ref, 'p Option) go" where
  "AndThen_Option in' f =
     bnd (deref in') (\<lambda>c.
       if Option.value c = None then ret NilPtr
       else f (Option.value c))"

definition IsSome :: "ref \<Rightarrow> (bool, 'p Option) go" where
  "IsSome o' = bnd (deref o') (\<lambda>c. ret (Option.value c \<noteq> None))"

definition IsNone :: "ref \<Rightarrow> (bool, 'p Option) go" where
  "IsNone o' = bnd (deref o') (\<lambda>c. ret (Option.value c = None))"

definition Unwrap_Option :: "ref \<Rightarrow> string \<Rightarrow> ('p option, 'p Option) go" where
  "Unwrap_Option o' msg =
     bnd (deref o') (\<lambda>c.
       if Option.value c = None
       then raise (Panic ''called `Option::unwrap()` on a `None` value'')
       else ret (Option.value c))"

definition XOr :: "ref \<Rightarrow> ref \<Rightarrow> (ref, 'p Option) go" where
  "XOr o' optb =
     bnd (deref o') (\<lambda>c.
       if Option.value c \<noteq> None then ret o'
       else bnd (deref optb) (\<lambda>d.
         if Option.value d \<noteq> None then ret optb
         else ret NilPtr))"

definition Take :: "ref \<Rightarrow> ('p option, 'p Option) go" where
  "Take o' =
     bnd (deref o') (\<lambda>c.
       bnd (assign o' (c\<lparr>Option.value := None\<rparr>)) (\<lambda>_.
         ret (Option.value c)))"


section \<open>Package result\<close>

text \<open>\<^verbatim>\<open>type Result[T any] struct { value *T; err error }\<close>\<close>

record ('p, 'e) Result =
  "value" :: "'p option"
  err :: "'e option"

definition New_Result :: "'p option \<Rightarrow> 'e option \<Rightarrow> (ref, ('p, 'e) Result) go" where
  "New_Result v e =
     (if e = None then new \<lparr>Result.value = v, err = None\<rparr>
      else new \<lparr>Result.value = None, err = e\<rparr>)"

definition Ok :: "'p option \<Rightarrow> (ref, ('p, 'e) Result) go" where
  "Ok v = new \<lparr>Result.value = v, err = None\<rparr>"

definition Err :: "'e option \<Rightarrow> (ref, ('p, 'e) Result) go" where
  "Err e = new \<lparr>Result.value = None, err = e\<rparr>"

text \<open>
  \<^verbatim>\<open>IsOk\<close> has a value receiver: it works on a copy of the struct. \<^verbatim>\<open>IsErr\<close> has a
  pointer receiver and only reads \<^verbatim>\<open>r.err\<close>; it is modelled on the struct its receiver
  points to, and every caller dereferences the receiver first (\<open>deref\<close>), which is
  where a \<^verbatim>\<open>nil\<close> receiver panics. \<^verbatim>\<open>Map\<close> takes its \<^verbatim>\<open>Result\<close> by value and calls
  \<^verbatim>\<open>IsErr\<close> on its own copy.
\<close>

definition IsOk :: "('p, 'e) Result \<Rightarrow> bool" where
  "IsOk r = (err r = None)"

definition IsErr :: "('p, 'e) Result \<Rightarrow> bool" where
  "IsErr r = (err r \<noteq> None)"



definition Map_Result ::
  "('p, 'e) Result \<Rightarrow> ('p option \<Rightarrow> ('p option, ('p, 'e) Result) go)
    \<Rightarrow> (ref, ('p, 'e) Result) go" where
  "Map_Result r f =
     (if IsErr r then Err (err r)
      else bnd (f (Result.value r)) Ok)"






definition IsErrAnd ::
  "ref \<Rightarrow> ('e option \<Rightarrow> (bool, ('p, 'e) Result) go) \<Rightarrow> (bool, ('p, 'e) Result) go" where
  "IsErrAnd r f =
     bnd (deref r) (\<lambda>c.
       if IsErr c then ret True
       else f (err c))"



definition Expect_Result :: "ref \<Rightarrow> string \<Rightarrow> ('p option, ('p, 'e) Result) go" where
  "Expect_Result r msg =
     bnd (deref r) (\<lambda>c.
       if IsErr c then raise (Panic msg)
       else ret (Result.value c))"


definition Unwrap_Result :: "ref \<Rightarrow> ('p option, ('p, 'e) Result) go" where
  "Unwrap_Result r =
     bnd (deref r) (\<lambda>c.
       if IsErr c then raise (Panic ''called `Result::unwrap()` on an `Err` value'')
       else ret (Result.value c))"

definition UnwrapError :: "ref \<Rightarrow> ('e option, ('p, 'e) Result) go" where
  "UnwrapError r =
     bnd (deref r) (\<lambda>c.
       if IsOk c then raise (Panic ''called `Result::unwrap_err()` on an `Ok` value'')
       else ret (err c))"







section \<open>Vocabulary of the properties\<close>


text \<open>Two small stores for the concrete runs below.\<close>

abbreviation two_options :: "nat Option list" where
  "two_options \<equiv> [\<lparr>Option.value = None\<rparr>, \<lparr>Option.value = Some 5\<rparr>]"

abbreviation two_results :: "(nat, string) Result list" where
  "two_results \<equiv> [\<lparr>Result.value = Some 1, err = None\<rparr>,
                   \<lparr>Result.value = None, err = Some ''boom''\<rparr>]"




section \<open>Running calls\<close>

lemma ret_run [simp]: "ret x h = (Inr x, h)"
  by (simp add: ret_def)

lemma raise_run [simp]: "raise p h = (Inl p, h)"
  by (simp add: raise_def)

lemma new_run [simp]: "new c h = (Inr (Ptr (length h)), h @ [c])"
  by (simp add: new_def)

lemma deref_run [simp]: "a < length h \<Longrightarrow> deref (Ptr a) h = (Inr (h ! a), h)"
  by (simp add: deref_def)

lemma deref_nil [simp]: "deref NilPtr h = (Inl RuntimeError, h)"
  by (simp add: deref_def)

lemma assign_run [simp]: "a < length h \<Longrightarrow> assign (Ptr a) c h = (Inr (), h[a := c])"
  by (simp add: assign_def)

lemma bnd_run:
  "bnd m k h = (case m h of (Inl p, h') \<Rightarrow> (Inl p, h') | (Inr x, h') \<Rightarrow> k x h')"
  by (simp add: bnd_def)

lemma bnd_assoc [simp]: "bnd (bnd m k) k' = bnd m (\<lambda>x. bnd (k x) k')"
  by (rule ext) (simp add: bnd_def split: prod.split sum.split)

lemma bnd_ret [simp]: "bnd (ret x) k h = k x h"
  by (simp add: bnd_run)

lemma bnd_raise [simp]: "bnd (raise p) k h = (Inl p, h)"
  by (simp add: bnd_run)

lemma bnd_new [simp]: "bnd (new c) k h = k (Ptr (length h)) (h @ [c])"
  by (simp add: bnd_run)

lemma bnd_deref [simp]: "a < length h \<Longrightarrow> bnd (deref (Ptr a)) k h = k (h ! a) h"
  by (simp add: bnd_run)

lemma bnd_deref_nil [simp]: "bnd (deref NilPtr) k h = (Inl RuntimeError, h)"
  by (simp add: bnd_run)

lemma bnd_assign [simp]:
  "a < length h \<Longrightarrow> bnd (assign (Ptr a) c) k h = k () (h[a := c])"
  by (simp add: bnd_run)


section \<open>Calls that only allocate\<close>









text \<open>
  A write is not a call that only allocates, also when the call panics after it: an
  unwrap that wiped its receiver before panicking would not pass.
\<close>

lemma write_then_panic_not_allocates_only:
  "\<not> allocates_only (bnd (assign (Ptr 1) \<lparr>Result.value = None, err = None\<rparr>)
       (\<lambda>u. raise (Panic ''wiped'')) :: (nat option, (nat, string) Result) go)"
proof
  assume "allocates_only (bnd (assign (Ptr 1) \<lparr>Result.value = None, err = None\<rparr>)
       (\<lambda>u. raise (Panic ''wiped'')) :: (nat option, (nat, string) Result) go)"
  then have "prefix two_results
      (snd (bnd (assign (Ptr 1) \<lparr>Result.value = None, err = None\<rparr>)
         (\<lambda>u. raise (Panic ''wiped'') :: (nat option, (nat, string) Result) go)
         two_results))"
    by (simp only: allocates_only_def)
  then show False
    by simp
qed



























section \<open>Package option: the claims\<close>

text \<open>
  C1 (as amended). \<^verbatim>\<open>Some(v).IsSome()\<close> is true exactly when \<open>v\<close> is not \<^verbatim>\<open>nil\<close>:
  \<^verbatim>\<open>Some\<close> stores the pointer as it is and \<^verbatim>\<open>IsSome\<close> compares the stored pointer
  with \<^verbatim>\<open>nil\<close>, so \<^verbatim>\<open>Some(nil)\<close> is the empty state. \<^verbatim>\<open>New(nil)\<close> is the empty state
  too: \<^verbatim>\<open>New(nil).IsNone()\<close> is true.
\<close>

theorem Some_New_presence:
  "bnd (Some_Option v) IsSome h = (Inr (v \<noteq> None), h @ [\<lparr>Option.value = v\<rparr>])
   \<and> bnd (New_Option None) IsNone h = (Inr True, h @ [\<lparr>Option.value = None\<rparr>])"
  by (simp add: Some_Option_def New_Option_def IsSome_def IsNone_def)

text \<open>
  C1 as stated fails at the \<^verbatim>\<open>nil\<close> payload: \<^verbatim>\<open>Some(nil).IsSome()\<close> is false.
\<close>

theorem Some_nil_counterexample:
  "bnd (Some_Option (None :: nat option)) IsSome []
   = (Inr False, [\<lparr>Option.value = None\<rparr>])"
  by (simp add: Some_Option_def IsSome_def)

text \<open>
  C2. \<^verbatim>\<open>XOr\<close> is claimed to return an empty container unless exactly one of the two
  options is present. The code returns the receiver whenever the receiver is present,
  also when \<^verbatim>\<open>optb\<close> is present as well; and with both absent it returns the \<^verbatim>\<open>nil\<close>
  pointer and allocates nothing. Both runs, on stores of two options:
\<close>

theorem XOr_both_present_both_absent:
  "XOr (Ptr 0) (Ptr 1) [\<lparr>Option.value = Some (1::nat)\<rparr>, \<lparr>Option.value = Some 2\<rparr>]
     = (Inr (Ptr 0), [\<lparr>Option.value = Some 1\<rparr>, \<lparr>Option.value = Some 2\<rparr>])
   \<and> XOr (Ptr 0) (Ptr 1) [\<lparr>Option.value = (None :: nat option)\<rparr>, \<lparr>Option.value = None\<rparr>]
     = (Inr NilPtr, [\<lparr>Option.value = None\<rparr>, \<lparr>Option.value = None\<rparr>])"
  by (simp add: XOr_def)

text \<open>
  C8. For every option \<open>o\<close> of the store, present or absent, \<^verbatim>\<open>o.Take()\<close> returns the
  pointer \<open>o\<close> held, and \<^verbatim>\<open>o.IsNone()\<close> is true afterwards: the struct \<open>o\<close> points to
  has been reset, and no other struct of the store has changed.
\<close>

theorem Take_leaves_none:
  assumes "a < length h"
  shows "bnd (Take (Ptr a)) (\<lambda>v. bnd (IsNone (Ptr a)) (\<lambda>b. ret (v, b))) h
         = (Inr (Option.value (h ! a), True), h[a := \<lparr>Option.value = None\<rparr>])"
  using assms by (cases "h ! a") (simp add: Take_def IsNone_def)

text \<open>\<^verbatim>\<open>Take\<close> on the present option at address 1 and on the absent one at address 0.\<close>

theorem Take_leaves_none_witness:
  "(1::nat) < length two_options
   \<and> bnd (Take (Ptr 1)) (\<lambda>v. bnd (IsNone (Ptr 1)) (\<lambda>b. ret (v, b))) two_options
      = (Inr (Some 5, True), [\<lparr>Option.value = None\<rparr>, \<lparr>Option.value = None\<rparr>])
   \<and> bnd (Take (Ptr 0)) (\<lambda>v. bnd (IsNone (Ptr 0)) (\<lambda>b. ret (v, b))) two_options
      = (Inr (None, True), two_options)"
  using Take_leaves_none [of 1 two_options] Take_leaves_none [of 0 two_options]
  by simp

text \<open>
  C9. For an absent option, \<^verbatim>\<open>And\<close> and \<^verbatim>\<open>AndThen\<close> return the \<^verbatim>\<open>nil\<close> container
  pointer and allocate no empty container (the store is unchanged, \<open>f\<close> is not called);
  for a present option, \<^verbatim>\<open>And\<close> returns \<open>out\<close> itself and \<^verbatim>\<open>AndThen\<close> is the call of
  \<open>f\<close> on the wrapped pointer.
\<close>

theorem And_AndThen_Option_absent_nil:
  assumes "a < length h"
  shows "And_Option (Ptr a) out h
           = (Inr (if Option.value (h ! a) = None then NilPtr else out), h)
         \<and> AndThen_Option (Ptr a) f h
           = (if Option.value (h ! a) = None then (Inr NilPtr, h)
              else f (Option.value (h ! a)) h)"
  using assms by (simp add: And_Option_def AndThen_Option_def)

text \<open>Both operations on the absent option at address 0 and the present one at 1.\<close>

theorem And_AndThen_Option_absent_nil_witness:
  "(1::nat) < length two_options
   \<and> And_Option (Ptr 0) (Ptr 1) two_options = (Inr NilPtr, two_options)
   \<and> AndThen_Option (Ptr 0) Some_Option two_options = (Inr NilPtr, two_options)
   \<and> And_Option (Ptr 1) (Ptr 0) two_options = (Inr (Ptr 0), two_options)
   \<and> AndThen_Option (Ptr 1) Some_Option two_options
       = (Inr (Ptr 2), two_options @ [\<lparr>Option.value = Some 5\<rparr>])"
  using And_AndThen_Option_absent_nil [of 0 two_options "Ptr 1" Some_Option]
    And_AndThen_Option_absent_nil [of 1 two_options "Ptr 0" Some_Option]
  by (simp add: Some_Option_def)

text \<open>
  C10. \<^verbatim>\<open>Unwrap\<close> of package option takes a message and never looks at it: on an
  absent option it panics with the fixed string, whatever \<open>msg\<close> is, and on a present
  option it returns the wrapped pointer, whatever \<open>msg\<close> is. Either way the store is
  as it was.
\<close>

theorem Unwrap_Option_ignores_msg:
  assumes "a < length h"
  shows "Unwrap_Option (Ptr a) msg h
         = (if Option.value (h ! a) = None
            then (Inl (Panic ''called `Option::unwrap()` on a `None` value''), h)
            else (Inr (Option.value (h ! a)), h))"
  using assms by (simp add: Unwrap_Option_def)

text \<open>\<^verbatim>\<open>Unwrap("my message")\<close> on the absent and on the present option.\<close>

theorem Unwrap_Option_ignores_msg_witness:
  "(1::nat) < length two_options
   \<and> Unwrap_Option (Ptr 0) ''my message'' two_options
      = (Inl (Panic ''called `Option::unwrap()` on a `None` value''), two_options)
   \<and> Unwrap_Option (Ptr 1) ''my message'' two_options = (Inr (Some 5), two_options)"
  using Unwrap_Option_ignores_msg [of 0 two_options "''my message''"]
    Unwrap_Option_ignores_msg [of 1 two_options "''my message''"]
  by simp


section \<open>Package result: the claims\<close>

text \<open>
  C3. \<^verbatim>\<open>IsErrAnd\<close> as the code has it: for a receiver in the error state it returns
  true and does not call the predicate (the store is the one it was given, and a
  predicate that would panic does not get to); for a receiver not in the error state
  it is the call of the predicate on the \<^verbatim>\<open>nil\<close> error.
\<close>

theorem IsErrAnd_literal:
  assumes "a < length h"
  shows "IsErrAnd (Ptr a) f h = (if IsErr (h ! a) then (Inr True, h) else f None h)"
  using assms by (simp add: IsErrAnd_def IsErr_def)

text \<open>
  On the error at address 1 a panicking predicate is never called; on the success at
  address 0 the predicate \<^verbatim>\<open>e == nil\<close> is called on \<^verbatim>\<open>nil\<close> and answers true.
\<close>

theorem IsErrAnd_literal_witness:
  "(1::nat) < length two_results
   \<and> IsErrAnd (Ptr 1) (\<lambda>e. raise (Panic ''predicate called'')) two_results
      = (Inr True, two_results)
   \<and> IsErrAnd (Ptr 0) (\<lambda>e. ret (e = None)) two_results = (Inr True, two_results)"
  using IsErrAnd_literal [of 1 two_results "\<lambda>e. raise (Panic ''predicate called'')"]
    IsErrAnd_literal [of 0 two_results "\<lambda>e. ret (e = None)"]
  by (simp add: IsErr_def)




text \<open>
  C5 (as amended). \<^verbatim>\<open>Map(*Ok(v), f).Unwrap()\<close> is what \<open>f\<close> returns on \<open>v\<close> (and panics
  as \<open>f\<close> does); for every error \<open>e\<close> that is not \<^verbatim>\<open>nil\<close>,
  \<^verbatim>\<open>Map(*Err(e), f).UnwrapError()\<close> is \<open>e\<close>, and \<open>f\<close> is not called.
\<close>

theorem Map_Ok_Err:
  "bnd (Ok v) (\<lambda>r. bnd (deref r) (\<lambda>c. bnd (Map_Result c f) Unwrap_Result)) h
     = (case f v (h @ [\<lparr>Result.value = v, err = None\<rparr>]) of
          (Inl p, h1) \<Rightarrow> (Inl p, h1)
        | (Inr y, h1) \<Rightarrow> (Inr y, h1 @ [\<lparr>Result.value = y, err = None\<rparr>]))
   \<and> bnd (Err (Some e)) (\<lambda>r. bnd (deref r) (\<lambda>c. bnd (Map_Result c f) UnwrapError)) h
     = (Inr (Some e), h @ [\<lparr>Result.value = None, err = Some e\<rparr>,
                           \<lparr>Result.value = None, err = Some e\<rparr>])"
  by (simp add: Err_def Ok_def Map_Result_def UnwrapError_def Unwrap_Result_def
      IsErr_def IsOk_def bnd_run nth_append split: sum.split prod.split)

text \<open>
  C5 as stated fails at the \<^verbatim>\<open>nil\<close> error: \<^verbatim>\<open>Err(nil)\<close> is a result in the Ok
  state, \<^verbatim>\<open>Map\<close> calls \<open>f\<close> on it, and \<^verbatim>\<open>UnwrapError\<close> panics.
\<close>

theorem Map_Err_nil_counterexample:
  "bnd (Err (None :: string option))
     (\<lambda>r. bnd (deref r) (\<lambda>c. bnd (Map_Result c (\<lambda>x. ret x)) UnwrapError))
     ([] :: (nat, string) Result list)
   = (Inl (Panic ''called `Result::unwrap_err()` on an `Ok` value''),
      [\<lparr>Result.value = None, err = None\<rparr>, \<lparr>Result.value = None, err = None\<rparr>])"
  by (simp add: Err_def Ok_def Map_Result_def UnwrapError_def IsErr_def IsOk_def)

text \<open>
  C6 (as amended). \<^verbatim>\<open>Ok(v).Unwrap()\<close> returns \<open>v\<close> and does not panic; for every error
  \<open>e\<close> that is not \<^verbatim>\<open>nil\<close>, \<^verbatim>\<open>Err(e).Unwrap()\<close> panics with the fixed string and
  \<^verbatim>\<open>Err(e).Expect(msg)\<close> panics with exactly \<open>msg\<close>.
\<close>

theorem Unwrap_Expect_contract:
  "bnd (Ok v) Unwrap_Result h = (Inr v, h @ [\<lparr>Result.value = v, err = None\<rparr>])
   \<and> bnd (Err (Some e)) Unwrap_Result h
       = (Inl (Panic ''called `Result::unwrap()` on an `Err` value''),
          h @ [\<lparr>Result.value = None, err = Some e\<rparr>])
   \<and> bnd (Err (Some e)) (\<lambda>r. Expect_Result r msg) h
       = (Inl (Panic msg), h @ [\<lparr>Result.value = None, err = Some e\<rparr>])"
  by (simp add: Err_def Ok_def Unwrap_Result_def Expect_Result_def IsErr_def)

text \<open>
  C6 as stated fails at the \<^verbatim>\<open>nil\<close> error: \<^verbatim>\<open>Err(nil).Unwrap()\<close> returns \<^verbatim>\<open>nil\<close>
  and does not panic.
\<close>

theorem Unwrap_Err_nil_counterexample:
  "bnd (Err (None :: string option)) Unwrap_Result ([] :: (nat, string) Result list)
   = (Inr None, [\<lparr>Result.value = None, err = None\<rparr>])"
  by (simp add: Err_def Unwrap_Result_def IsErr_def)

text \<open>
  C7 (as amended). On every result struct exactly one of \<^verbatim>\<open>IsOk\<close> and \<^verbatim>\<open>IsErr\<close> is
  true, so on every result built by \<^verbatim>\<open>Ok\<close>, \<^verbatim>\<open>Err\<close> or \<^verbatim>\<open>New\<close>, whatever the
  arguments. \<^verbatim>\<open>Ok(v).IsOk()\<close> is true; \<^verbatim>\<open>Err(e)\<close> and \<^verbatim>\<open>New(v, e)\<close> are in the error
  state exactly when \<open>e\<close> is not \<^verbatim>\<open>nil\<close>, so \<^verbatim>\<open>Err(e).IsErr()\<close> is true for every
  error \<open>e\<close> that is not \<^verbatim>\<open>nil\<close>.
\<close>

theorem IsOk_IsErr_exclusive:
  "IsOk c = (\<not> IsErr c)
   \<and> bnd (Ok v) (\<lambda>r. bnd (deref r) (\<lambda>c. ret (IsOk c, IsErr c))) h
       = (Inr (True, False), h @ [\<lparr>Result.value = v, err = None\<rparr>])
   \<and> bnd (Err e) (\<lambda>r. bnd (deref r) (\<lambda>c. ret (IsOk c, IsErr c))) h
       = (Inr (e = None, e \<noteq> None), h @ [\<lparr>Result.value = None, err = e\<rparr>])
   \<and> bnd (New_Result v e) (\<lambda>r. bnd (deref r) (\<lambda>c. ret (IsOk c, IsErr c))) h
       = (Inr (e = None, e \<noteq> None),
          h @ [if e = None then \<lparr>Result.value = v, err = None\<rparr>
               else \<lparr>Result.value = None, err = e\<rparr>])
   \<and> bnd (Err (Some e')) (\<lambda>r. bnd (deref r) (\<lambda>c. ret (IsErr c))) h
       = (Inr True, h @ [\<lparr>Result.value = None, err = Some e'\<rparr>])"
  by (simp add: Err_def Ok_def New_Result_def IsErr_def IsOk_def)

text \<open>
  C7 as stated fails at the \<^verbatim>\<open>nil\<close> error: \<^verbatim>\<open>Err(nil).IsErr()\<close> is false.
\<close>

theorem Err_nil_IsErr_counterexample:
  "bnd (Err (None :: string option)) (\<lambda>r. bnd (deref r) (\<lambda>c. ret (IsErr c)))
     ([] :: (nat, string) Result list)
   = (Inr False, [\<lparr>Result.value = None, err = None\<rparr>])"
  by (simp add: Err_def IsErr_def)

end
